theory Spec2Isabelle
  imports Complex_Main "HOL-Library.Word" "HOL-Library.Code_Target_Numeral"
begin

section \<open>Virtual time, addresses, packets\<close>

text \<open>
  The program \<^verbatim>\<open>my-manet-routing-compare.cc\<close> runs on the ns-3 discrete-event
  simulator, which the repository uses and does not contain. What the program needs of it
  is modelled here and in the section on the simulator primitives.
\<close>

text \<open>
  Modelled from the spec: the virtual time of the simulation engine. ns-3 keeps it as an
  integer number of nanoseconds; \<open>Seconds\<close> converts a \<^verbatim>\<open>double\<close> to it and \<open>GetSeconds\<close>
  reads it back as a \<^verbatim>\<open>double\<close>. All times the sampler is scheduled at are whole
  seconds, where the conversion is exact.
\<close>

type_synonym Time = nat

definition Seconds :: "real \<Rightarrow> Time" where
  "Seconds s = nat \<lfloor>s * 1000000000\<rfloor>"

definition GetSeconds :: "Time \<Rightarrow> real" where
  "GetSeconds t = real t / 1000000000"

type_synonym Ipv4Address = "32 word"

text \<open>
  Modelled from the spec: the sender address of a received packet, whose type is
  recognised or not. An ns-3 \<^verbatim>\<open>Address\<close> is a tagged value;
  \<^verbatim>\<open>InetSocketAddress::IsMatchingType\<close> tells whether it holds an IPv4 address and a port.
\<close>

datatype Address = InetSocketAddress (GetIpv4: Ipv4Address) (GetPort: "16 word") | OtherAddress

fun IsMatchingType :: "Address \<Rightarrow> bool" where
  "IsMatchingType (InetSocketAddress a p) = True"
| "IsMatchingType OtherAddress = False"

datatype Packet = Packet (GetSize: "32 word")

text \<open>
  A socket as \<open>ReceivePacket\<close> sees it: the id of its node, and the packets that
  \<^verbatim>\<open>RecvFrom\<close> will hand out, each with its sender address, until it returns null.
\<close>

record Socket =
  GetId :: nat
  pending :: "(Packet \<times> Address) list"

section \<open>The experiment object and its surroundings\<close>

text \<open>The fields of \<^verbatim>\<open>class RoutingExperiment\<close> (source lines 105-114).\<close>

record RoutingExperiment =
  port :: "32 word"
  bytesTotal :: "32 word"
  packetsReceived :: "32 word"
  m_CSVfileName :: string
  m_nSinks :: int
  m_protocolName :: string
  m_txp :: real
  m_traceMobility :: bool
  m_protocol :: "32 word"

text \<open>
  One data row of the CSV file, with the columns of the header. The row is kept as the
  values streamed into the file, before they are formatted. \<open>ReceiveRate\<close> is the exact
  quotient; the \<^verbatim>\<open>double\<close> of the source is the IEEE value nearest to it.
\<close>

record SampleRow =
  SimulationSecond :: real
  ReceiveRate :: real
  PacketsReceived :: "32 word"
  NumberOfSinks :: int
  RoutingProtocol :: string
  TransmissionPower :: real

datatype csv_line = Header string | Row SampleRow

text \<open>One sink/source pair as installed by the loop of \<open>Run\<close> (source lines 362-379).\<close>

record FlowSpec =
  sinkNodeIndex :: int
  sourceNodeIndex :: int
  destinationIndex :: int
  destinationPort :: "32 word"
  sinkStart :: real
  sinkStop :: real
  sourceStart :: real
  sourceStop :: real

text \<open>
  Everything else that happens in the simulation (network stack, applications, mobility)
  never reads the experiment object. One of its events is given by what it does to the
  experiment, which is at most one call of the receive callback on a socket, and by the
  events it schedules in turn, each with its delay. \<open>Run\<close> installs packet sink
  applications and never calls \<open>SetupPacketReceive\<close>, so the program as it stands
  registers the callback on no socket; events with a callback are admitted all the same,
  and every result below holds with and without them.
\<close>

datatype NetEvent = NetEvent (delay: Time) (callback: "Socket option") (follow_ups: "NetEvent list")

datatype Event = CheckThroughputEv | StopEv | NetEv "Socket option" "NetEvent list"

text \<open>
  The state of a run: the experiment object, the simulator (current time, pending events
  in dispatch order, stop flag), the file system, the log output and the installed flows.
\<close>

record World =
  exper :: RoutingExperiment
  m_currentTs :: Time
  m_events :: "(Time \<times> Event) list"
  m_stop :: bool
  files :: "string \<Rightarrow> csv_line list option"
  console :: "string list"
  installed :: "FlowSpec list"

text \<open>
  What the program takes from outside: the stream formatting of \<^verbatim>\<open>operator<<\<close>
  for a \<^verbatim>\<open>double\<close>, an unsigned integer and an IPv4 address; the numbers that the
  \<open>k\<close>-th call of \<^verbatim>\<open>RandU01\<close> on the \<open>i\<close>-th random variable returns; the events that
  the rest of the simulation registers before and after the sampler is armed; and the
  indeterminate values of the two fields that the constructor leaves uninitialised.
\<close>

record Env =
  show_double :: "real \<Rightarrow> string"
  show_uint :: "nat \<Rightarrow> string"
  show_ipv4 :: "Ipv4Address \<Rightarrow> string"
  RandU01 :: "nat \<Rightarrow> nat \<Rightarrow> real"
  setup_events :: "NetEvent list"
  late_events :: "NetEvent list"
  indeterminate_nSinks :: int
  indeterminate_txp :: real

datatype error = IndexOutOfRange | InvalidCommandLine

section \<open>The simulator primitives the program uses\<close>

text \<open>
  Modelled from the spec: the scheduler of the simulation engine, which registers a
  callback for a virtual time and invokes the callbacks one after the other in
  non-decreasing time order. \<^verbatim>\<open>Simulator::Schedule (delay, ev)\<close> files the event at
  \<open>now + delay\<close>. Events of equal time are dispatched in the order they were scheduled;
  this is the rule of ns-3, the spec leaves it open.
\<close>

fun Insert :: "Time \<times> Event \<Rightarrow> (Time \<times> Event) list \<Rightarrow> (Time \<times> Event) list" where
  "Insert e [] = [e]"
| "Insert e (x # xs) = (if fst e < fst x then e # x # xs else x # Insert e xs)"

definition Schedule :: "Time \<Rightarrow> Event \<Rightarrow> World \<Rightarrow> World" where
  "Schedule d ev w = w\<lparr>m_events := Insert (m_currentTs w + d, ev) (m_events w)\<rparr>"

fun Schedule_net :: "NetEvent \<Rightarrow> World \<Rightarrow> World" where
  "Schedule_net (NetEvent d cb fs) w = Schedule d (NetEv cb fs) w"

definition Schedule_all :: "NetEvent list \<Rightarrow> World \<Rightarrow> World" where
  "Schedule_all evs w = fold Schedule_net evs w"

section \<open>The functions of the program\<close>

text \<open>The constructor (source lines 117-127).\<close>

definition RoutingExperiment_ctor :: "Env \<Rightarrow> RoutingExperiment" where
  "RoutingExperiment_ctor env =
     \<lparr>port = 9, bytesTotal = 0, packetsReceived = 0,
      m_CSVfileName = ''AODV-simulation.csv'',
      m_nSinks = indeterminate_nSinks env,
      m_protocolName = [],
      m_txp = indeterminate_txp env,
      m_traceMobility = True,
      m_protocol = 2\<rparr>"

text \<open>\<open>PrintReceivedPacket\<close> (source lines 128-145).\<close>

definition PrintReceivedPacket :: "Env \<Rightarrow> Time \<Rightarrow> nat \<Rightarrow> Address \<Rightarrow> string" where
  "PrintReceivedPacket env now node senderAddress =
     show_double env (GetSeconds now) @ '' '' @ show_uint env node @
     (if IsMatchingType senderAddress
      then '' received one packet from '' @ show_ipv4 env (GetIpv4 senderAddress)
      else '' received one packet!'')"

text \<open>
  \<open>ReceivePacket\<close> (source lines 147-158): the loop takes packets from the socket until
  none is left; the counters are \<^verbatim>\<open>uint32_t\<close> and wrap around.
\<close>

fun ReceivePacket_loop :: "Env \<Rightarrow> nat \<Rightarrow> (Packet \<times> Address) list \<Rightarrow> World \<Rightarrow> World" where
  "ReceivePacket_loop env node [] w = w"
| "ReceivePacket_loop env node ((packet, senderAddress) # rest) w =
     ReceivePacket_loop env node rest
       (w\<lparr>exper := (exper w)
             \<lparr>bytesTotal := bytesTotal (exper w) + GetSize packet,
              packetsReceived := packetsReceived (exper w) + 1\<rparr>,
          console := console w @ [PrintReceivedPacket env (m_currentTs w) node senderAddress]\<rparr>)"

definition ReceivePacket :: "Env \<Rightarrow> Socket \<Rightarrow> World \<Rightarrow> World" where
  "ReceivePacket env socket w = ReceivePacket_loop env (GetId socket) (pending socket) w"

text \<open>
  Opening a file with \<^verbatim>\<open>std::ios::app\<close> and writing one line: the file is created when
  it does not exist, and the line goes to its end. The source does not look at the state
  of the stream; opening and writing are taken to succeed.
\<close>

definition append_line :: "string \<Rightarrow> csv_line \<Rightarrow> (string \<Rightarrow> csv_line list option) \<Rightarrow> (string \<Rightarrow> csv_line list option)" where
  "append_line name l fs = fs(name \<mapsto> (case fs name of None \<Rightarrow> [] | Some ls \<Rightarrow> ls) @ [l])"

text \<open>\<open>CheckThroughput\<close> (source lines 160-179).\<close>

definition CheckThroughput :: "World \<Rightarrow> World" where
  "CheckThroughput w =
     (let this = exper w;
          kbs = (real (unat (bytesTotal this)) * 8) / 1000;
          this = this\<lparr>bytesTotal := 0\<rparr>;
          out = append_line (m_CSVfileName this)
                  (Row \<lparr>SimulationSecond = GetSeconds (m_currentTs w),
                        ReceiveRate = kbs,
                        PacketsReceived = packetsReceived this,
                        NumberOfSinks = m_nSinks this,
                        RoutingProtocol = m_protocolName this,
                        TransmissionPower = m_txp this\<rparr>)
                  (files w);
          this = this\<lparr>packetsReceived := 0\<rparr>
      in Schedule (Seconds 1) CheckThroughputEv (w\<lparr>exper := this, files := out\<rparr>))"

text \<open>
  \<open>CommandSetup\<close> (source lines 193-202): the command line can set the file name and the
  mobility-tracing flag; the line that would read the protocol selector is commented out.
\<close>

record CommandLine =
  arg_CSVfileName :: "string option"
  arg_traceMobility :: "bool option"

definition CommandSetup :: "CommandLine \<Rightarrow> RoutingExperiment \<Rightarrow> string \<times> RoutingExperiment" where
  "CommandSetup cmd this =
     (let this = (case arg_CSVfileName cmd of None \<Rightarrow> this | Some v \<Rightarrow> this\<lparr>m_CSVfileName := v\<rparr>);
          this = (case arg_traceMobility cmd of None \<Rightarrow> this | Some v \<Rightarrow> this\<lparr>m_traceMobility := v\<rparr>)
      in (m_CSVfileName this, this))"

section \<open>Dispatching events\<close>

text \<open>
  Modelled from the spec: the event loop of the simulation engine. It takes the earliest
  pending event, advances the clock to its time and runs its callback to completion:
  the sampler, the stop of the simulator (\<^verbatim>\<open>Simulator::Stop\<close> schedules an event that
  raises the stop flag), or an event of the rest of the simulation.
\<close>

fun Invoke :: "Env \<Rightarrow> Event \<Rightarrow> World \<Rightarrow> World" where
  "Invoke env CheckThroughputEv w = CheckThroughput w"
| "Invoke env StopEv w = w\<lparr>m_stop := True\<rparr>"
| "Invoke env (NetEv cb fs) w =
     Schedule_all fs (case cb of None \<Rightarrow> w | Some socket \<Rightarrow> ReceivePacket env socket w)"

definition ProcessOneEvent :: "Env \<Rightarrow> World \<Rightarrow> World" where
  "ProcessOneEvent env w =
     (case m_events w of
        [] \<Rightarrow> w
      | (ts, ev) # rest \<Rightarrow> Invoke env ev (w\<lparr>m_events := rest, m_currentTs := ts\<rparr>))"

text \<open>
  Modelled from the spec: \<^verbatim>\<open>Simulator::Run\<close> dispatches while there are events and the
  stop flag is down. The sampler re-arms itself for ever, so the loop need not end: it is
  given fuel, and \<open>None\<close> says that the fuel ran out before the loop ended.
\<close>

primrec Simulator_Run_loop :: "Env \<Rightarrow> nat \<Rightarrow> World \<Rightarrow> World option" where
  "Simulator_Run_loop env 0 w =
     (if m_events w \<noteq> [] \<and> \<not> m_stop w then None else Some w)"
| "Simulator_Run_loop env (Suc n) w =
     (if m_events w \<noteq> [] \<and> \<not> m_stop w
      then Simulator_Run_loop env n (ProcessOneEvent env w) else Some w)"

definition Simulator_Run :: "Env \<Rightarrow> nat \<Rightarrow> World \<Rightarrow> World option" where
  "Simulator_Run env fuel w = Simulator_Run_loop env fuel (w\<lparr>m_stop := False\<rparr>)"

section \<open>\<open>Run\<close> and \<open>main\<close>\<close>

definition nWifis :: int where
  "nWifis = 15"

text \<open>
  Modelled from the spec: a uniform random draw from \<open>[min, max)\<close>.
  \<^verbatim>\<open>UniformRandomVariable::GetValue (min, max)\<close> scales a number of \<open>[0, 1)\<close>.
\<close>

definition GetValue :: "real \<Rightarrow> real \<Rightarrow> real \<Rightarrow> real" where
  "GetValue u lo hi = lo + u * (hi - lo)"

text \<open>
  The loop over the pairs (source lines 362-379), as a function of the variables of
  \<open>Run\<close> that it reads and of its counter \<open>i\<close>. \<open>all_Nodes\<close> and \<open>adhocInterfaces\<close>
  hold \<open>2 * nWifis\<close> entries; an index beyond them is undefined behaviour in the source
  and an error here.
\<close>

function Run_pairs :: "Env \<Rightarrow> 32 word \<Rightarrow> real \<Rightarrow> int \<Rightarrow> int \<Rightarrow> error + FlowSpec list" where
  "Run_pairs env prt TotalTime nSinks i =
     (if i < nSinks then
        (if i < 2 * nWifis \<and> i + nSinks < 2 * nWifis then
           (case Run_pairs env prt TotalTime nSinks (i + 1) of
              Inl e \<Rightarrow> Inl e
            | Inr rest \<Rightarrow>
                Inr (\<lparr>sinkNodeIndex = i, sourceNodeIndex = i + nSinks,
                      destinationIndex = i, destinationPort = prt,
                      sinkStart = GetValue (RandU01 env (nat i) 0) 0 1,
                      sinkStop = TotalTime,
                      sourceStart = GetValue (RandU01 env (nat i) 1) 100 101,
                      sourceStop = TotalTime\<rparr> # rest))
         else Inl IndexOutOfRange)
      else Inr [])"
  by pat_completeness auto
termination
  by (relation "measure (\<lambda>(env, prt, TotalTime, nSinks, i). nat (nSinks - i))") auto

declare Run_pairs.simps [simp del]

text \<open>
  \<open>Run\<close> (source lines 229-424), without the radio, mobility and tracing configuration,
  which does not touch the experiment object.
\<close>

definition Run :: "Env \<Rightarrow> nat \<Rightarrow> int \<Rightarrow> real \<Rightarrow> string \<Rightarrow> World \<Rightarrow> (error + World) option" where
  "Run env fuel nSinks txp CSVfileName w =
     (let this = (exper w)\<lparr>m_nSinks := nSinks, m_txp := txp, m_CSVfileName := CSVfileName\<rparr>;
          TotalTime = 103;
          this = this\<lparr>m_protocolName := ''protocol''\<rparr>;
          w = Schedule_all (setup_events env) (w\<lparr>exper := this\<rparr>);
          this = (exper w)\<lparr>m_protocolName := ''AODV''\<rparr>;
          w = w\<lparr>exper := this\<rparr>
      in case Run_pairs env (port this) TotalTime nSinks 0 of
           Inl e \<Rightarrow> Some (Inl e)
         | Inr flows \<Rightarrow>
             (let w = w\<lparr>installed := flows\<rparr>;
                  w = CheckThroughput w;
                  w = Schedule (Seconds TotalTime) StopEv w;
                  w = Schedule_all (late_events env) w
              in map_option Inr (Simulator_Run env fuel w)))"

definition header_line :: string where
  "header_line = ''SimulationSecond,ReceiveRate,PacketsReceived,NumberOfSinks,RoutingProtocol,TransmissionPower''"

text \<open>The world when the program starts: the simulator at time 0 with no event pending.\<close>

definition boot :: "RoutingExperiment \<Rightarrow> (string \<Rightarrow> csv_line list option) \<Rightarrow> World" where
  "boot this fs =
     \<lparr>exper = this, m_currentTs = 0, m_events = [], m_stop = False,
      files = fs, console = [], installed = []\<rparr>"

text \<open>\<open>main\<close> (source lines 204-227), started on the file system \<open>fs\<close>.\<close>

definition main :: "Env \<Rightarrow> CommandLine \<Rightarrow> nat \<Rightarrow> (string \<Rightarrow> csv_line list option) \<Rightarrow> (error + World) option" where
  "main env cmd fuel fs =
     (let (CSVfileName, this) = CommandSetup cmd (RoutingExperiment_ctor env);
          fs = fs(CSVfileName \<mapsto> [Header header_line]);
          nSinks = 15;
          txp = 7.5
      in Run env fuel nSinks txp CSVfileName (boot this fs))"

section \<open>Observing a run\<close>

text \<open>The lines of a file, a missing file having none, and the data rows among them.\<close>

definition old_lines :: "(string \<Rightarrow> csv_line list option) \<Rightarrow> string \<Rightarrow> csv_line list" where
  "old_lines fs name = (case fs name of None \<Rightarrow> [] | Some ls \<Rightarrow> ls)"

definition lines_of :: "string \<Rightarrow> World \<Rightarrow> csv_line list" where
  "lines_of name w = old_lines (files w) name"

fun data_rows :: "csv_line list \<Rightarrow> SampleRow list" where
  "data_rows [] = []"
| "data_rows (Header h # ls) = data_rows ls"
| "data_rows (Row r # ls) = r # data_rows ls"

fun is_Header :: "csv_line \<Rightarrow> bool" where
  "is_Header (Header h) = True"
| "is_Header (Row r) = False"

definition last_row :: "string \<Rightarrow> World \<Rightarrow> SampleRow" where
  "last_row name w = last (data_rows (lines_of name w))"

text \<open>
  What a call of \<open>Run\<close> or \<open>main\<close> left behind: the lines of a file when the run
  returned normally, whether it failed, and whether it ended because the simulator was
  stopped at 103 s with the sampler still armed.
\<close>

definition result_lines :: "string \<Rightarrow> (error + World) option \<Rightarrow> csv_line list" where
  "result_lines name r = (case r of Some (Inr w) \<Rightarrow> lines_of name w | _ \<Rightarrow> [])"

definition failed :: "(error + World) option \<Rightarrow> bool" where
  "failed r = (case r of Some (Inl e) \<Rightarrow> True | _ \<Rightarrow> False)"

definition halted_armed :: "(error + World) option \<Rightarrow> bool" where
  "halted_armed r =
     (case r of
        Some (Inr w) \<Rightarrow> m_stop w \<and> m_currentTs w = Seconds 103 \<and>
                        (Seconds 103, CheckThroughputEv) \<in> set (m_events w)
      | _ \<Rightarrow> False)"

text \<open>
  The receive callback invoked on one socket after the other, the receive events of such
  a window, and the size of one of them.
\<close>

definition deliver :: "Env \<Rightarrow> Socket list \<Rightarrow> World \<Rightarrow> World" where
  "deliver env sockets w = fold (ReceivePacket env) sockets w"

definition window :: "Socket list \<Rightarrow> (Packet \<times> Address) list" where
  "window sockets = concat (map pending sockets)"

definition sizeBytes :: "Packet \<times> Address \<Rightarrow> nat" where
  "sizeBytes ev = unat (GetSize (fst ev))"

text \<open>The row that a firing of the sampler in world \<open>w\<close> writes.\<close>

definition sample :: "World \<Rightarrow> SampleRow" where
  "sample w =
     \<lparr>SimulationSecond = GetSeconds (m_currentTs w),
      ReceiveRate = (real (unat (bytesTotal (exper w))) * 8) / 1000,
      PacketsReceived = packetsReceived (exper w),
      NumberOfSinks = m_nSinks (exper w),
      RoutingProtocol = m_protocolName (exper w),
      TransmissionPower = m_txp (exper w)\<rparr>"


text \<open>
  The number of events of the rest of the simulation: every event counts with all the
  events it schedules in turn. A run dispatches each of them at most once, the sampler
  102 times and the stop event once, which bounds the fuel it needs.
\<close>

fun net_size :: "NetEvent \<Rightarrow> nat" where
  "net_size (NetEvent d cb fs) = Suc (sum_list (map net_size fs))"

fun ev_size :: "Event \<Rightarrow> nat" where
  "ev_size (NetEv cb fs) = Suc (sum_list (map net_size fs))"
| "ev_size ev = 0"

definition queue_size :: "(Time \<times> Event) list \<Rightarrow> nat" where
  "queue_size q = sum_list (map (\<lambda>e. ev_size (snd e)) q)"

definition fuel_needed :: "Env \<Rightarrow> nat" where
  "fuel_needed env =
     sum_list (map net_size (setup_events env)) + sum_list (map net_size (late_events env)) + 103"

text \<open>
  The invariant of the event loop of \<open>Run\<close>. Among the pending events, those of the
  program itself are the sampler's next firing at \<open>k\<close> seconds and the stop event at 103
  seconds, the stop event first when both fall on 103 seconds; the experiment object keeps
  its file name and labels; and the file holds, after the lines \<open>base\<close>, one row for each
  of the seconds \<open>1, \<dots>, k - 1\<close>.
\<close>

fun is_net :: "Time \<times> Event \<Rightarrow> bool" where
  "is_net (t, NetEv cb fs) = True"
| "is_net (t, ev) = False"

definition armed :: "nat \<Rightarrow> (Time \<times> Event) list" where
  "armed k = (if k < 103
              then [(k * 1000000000, CheckThroughputEv), (103000000000, StopEv)]
              else [(103000000000, StopEv), (k * 1000000000, CheckThroughputEv)])"

definition rows_ok :: "int \<Rightarrow> real \<Rightarrow> nat \<Rightarrow> SampleRow list \<Rightarrow> bool" where
  "rows_ok nS txp k rows \<longleftrightarrow>
     map (\<lambda>r. (SimulationSecond r, NumberOfSinks r, RoutingProtocol r, TransmissionPower r)) rows =
     map (\<lambda>j. (real j, nS, ''AODV'', txp)) [1..<k]"

definition written :: "string \<Rightarrow> int \<Rightarrow> real \<Rightarrow> csv_line list \<Rightarrow> nat \<Rightarrow> World \<Rightarrow> bool" where
  "written name nS txp base k w \<longleftrightarrow>
     (\<exists>rows. files w name = Some (base @ map Row rows) \<and> rows_ok nS txp k rows)"

definition sampler_inv :: "string \<Rightarrow> int \<Rightarrow> real \<Rightarrow> csv_line list \<Rightarrow> nat \<Rightarrow> World \<Rightarrow> bool" where
  "sampler_inv name nS txp base k w \<longleftrightarrow>
     1 \<le> k \<and> k \<le> 103 \<and> \<not> m_stop w \<and> sorted (map fst (m_events w)) \<and>
     filter (\<lambda>x. \<not> is_net x) (m_events w) = armed k \<and>
     m_CSVfileName (exper w) = name \<and> m_nSinks (exper w) = nS \<and>
     m_protocolName (exper w) = ''AODV'' \<and> m_txp (exper w) = txp \<and>
     written name nS txp base k w"

text \<open>The sampler is armed and nothing will stop the simulator.\<close>

definition self_armed :: "World \<Rightarrow> bool" where
  "self_armed w \<longleftrightarrow> \<not> m_stop w \<and> CheckThroughputEv \<in> snd ` set (m_events w) \<and>
     StopEv \<notin> snd ` set (m_events w)"

text \<open>
  A concrete environment: one event of the set-up delivers a 512-byte packet to node 3
  after half a second and schedules a second delivery two seconds later; every random
  draw is one half.
\<close>

definition demo_env :: Env where
  "demo_env =
     \<lparr>show_double = (\<lambda>x. ''t''), show_uint = (\<lambda>n. ''n''), show_ipv4 = (\<lambda>a. ''a''),
      RandU01 = (\<lambda>i k. 1 / 2),
      setup_events =
        [NetEvent 500000000
           (Some \<lparr>GetId = 3, pending = [(Packet 512, InetSocketAddress 167837953 49153)]\<rparr>)
           [NetEvent 2000000000
              (Some \<lparr>GetId = 3, pending = [(Packet 512, OtherAddress)]\<rparr>) []]],
      late_events = [],
      indeterminate_nSinks = 0,
      indeterminate_txp = 0\<rparr>"

definition no_args :: CommandLine where
  "no_args = \<lparr>arg_CSVfileName = None, arg_traceMobility = None\<rparr>"




section \<open>Times and the event queue\<close>

lemma Seconds_1: "Seconds 1 = 1000000000"
  by (simp add: Seconds_def)

lemma Seconds_103: "Seconds 103 = 103000000000"
  by (simp add: Seconds_def)

lemma GetSeconds_whole: "GetSeconds (k * 1000000000) = real k"
  by (simp add: GetSeconds_def)

lemma Insert_before_all: "\<forall>y\<in>set ys. fst e < fst y \<Longrightarrow> Insert e ys = e # ys"
  by (cases ys) auto

lemma set_Insert: "set (Insert e q) = insert e (set q)"
  by (induction q) auto

lemma sorted_Insert: "sorted (map fst q) \<Longrightarrow> sorted (map fst (Insert e q))"
  by (induction q) (auto simp: set_Insert)

lemma filter_Insert:
  "sorted (map fst q) \<Longrightarrow> filter P (Insert e q) = (if P e then Insert e (filter P q) else filter P q)"
proof (induction q)
  case Nil
  then show ?case by simp
next
  case (Cons x xs)
  show ?case
  proof (cases "fst e < fst x")
    case True
    with Cons.prems have "\<forall>y\<in>set (filter P (x # xs)). fst e < fst y"
      by auto
    then have "Insert e (filter P (x # xs)) = e # filter P (x # xs)"
      by (rule Insert_before_all)
    with True show ?thesis by simp
  next
    case False
    with Cons show ?thesis by simp
  qed
qed

lemma queue_size_Insert: "queue_size (Insert e q) = ev_size (snd e) + queue_size q"
  by (induction q) (auto simp: queue_size_def)

section \<open>What each function changes\<close>

lemma ReceivePacket_loop_fields:
  "m_events (ReceivePacket_loop env n ps w) = m_events w"
  "m_currentTs (ReceivePacket_loop env n ps w) = m_currentTs w"
  "m_stop (ReceivePacket_loop env n ps w) = m_stop w"
  "files (ReceivePacket_loop env n ps w) = files w"
  "installed (ReceivePacket_loop env n ps w) = installed w"
  by (induction env n ps w rule: ReceivePacket_loop.induct) simp_all

lemma ReceivePacket_loop_exper:
  "exper (ReceivePacket_loop env n ps w) =
     (exper w)\<lparr>bytesTotal := bytesTotal (exper w) + sum_list (map (\<lambda>p. GetSize (fst p)) ps),
               packetsReceived := packetsReceived (exper w) + of_nat (length ps)\<rparr>"
  by (induction env n ps w rule: ReceivePacket_loop.induct) (simp_all add: algebra_simps)

lemma ReceivePacket_loop_console:
  "console (ReceivePacket_loop env n ps w) =
     console w @ map (\<lambda>p. PrintReceivedPacket env (m_currentTs w) n (snd p)) ps"
  by (induction env n ps w rule: ReceivePacket_loop.induct) (simp_all add: ReceivePacket_loop_fields)

lemma Schedule_fields:
  "exper (Schedule d ev w) = exper w"
  "m_currentTs (Schedule d ev w) = m_currentTs w"
  "m_stop (Schedule d ev w) = m_stop w"
  "files (Schedule d ev w) = files w"
  "console (Schedule d ev w) = console w"
  "installed (Schedule d ev w) = installed w"
  "m_events (Schedule d ev w) = Insert (m_currentTs w + d, ev) (m_events w)"
  by (simp_all add: Schedule_def)

lemma Schedule_net_fields:
  "exper (Schedule_net e w) = exper w"
  "m_currentTs (Schedule_net e w) = m_currentTs w"
  "m_stop (Schedule_net e w) = m_stop w"
  "files (Schedule_net e w) = files w"
  "console (Schedule_net e w) = console w"
  "installed (Schedule_net e w) = installed w"
  by (cases e; simp add: Schedule_fields)+

lemma Schedule_all_fields:
  "exper (Schedule_all es w) = exper w"
  "m_currentTs (Schedule_all es w) = m_currentTs w"
  "m_stop (Schedule_all es w) = m_stop w"
  "files (Schedule_all es w) = files w"
  "console (Schedule_all es w) = console w"
  "installed (Schedule_all es w) = installed w"
  unfolding Schedule_all_def
  by (induction es arbitrary: w; simp add: Schedule_net_fields)+

lemma Schedule_net_events:
  "sorted (map fst (m_events w)) \<Longrightarrow>
     sorted (map fst (m_events (Schedule_net e w))) \<and>
     filter (\<lambda>x. \<not> is_net x) (m_events (Schedule_net e w)) = filter (\<lambda>x. \<not> is_net x) (m_events w) \<and>
     queue_size (m_events (Schedule_net e w)) = net_size e + queue_size (m_events w)"
  by (cases e) (simp add: Schedule_fields sorted_Insert filter_Insert queue_size_Insert)

lemma Schedule_all_events:
  "sorted (map fst (m_events w)) \<Longrightarrow>
     sorted (map fst (m_events (Schedule_all es w))) \<and>
     filter (\<lambda>x. \<not> is_net x) (m_events (Schedule_all es w)) = filter (\<lambda>x. \<not> is_net x) (m_events w) \<and>
     queue_size (m_events (Schedule_all es w)) = sum_list (map net_size es) + queue_size (m_events w)"
  unfolding Schedule_all_def
proof (induction es arbitrary: w)
  case Nil
  then show ?case by simp
next
  case (Cons e es)
  from Schedule_net_events [OF Cons.prems, of e] Cons.IH [of "Schedule_net e w"]
  show ?case by simp
qed

lemma CheckThroughput_fields:
  "m_currentTs (CheckThroughput w) = m_currentTs w"
  "m_stop (CheckThroughput w) = m_stop w"
  "console (CheckThroughput w) = console w"
  "installed (CheckThroughput w) = installed w"
  "m_events (CheckThroughput w) = Insert (m_currentTs w + 1000000000, CheckThroughputEv) (m_events w)"
  "exper (CheckThroughput w) = (exper w)\<lparr>bytesTotal := 0, packetsReceived := 0\<rparr>"
  by (simp_all add: CheckThroughput_def Let_def Schedule_fields Seconds_1)

lemma CheckThroughput_files:
  "files (CheckThroughput w) = append_line (m_CSVfileName (exper w)) (Row (sample w)) (files w)"
  by (simp add: CheckThroughput_def Let_def Schedule_fields sample_def)

section \<open>One dispatch keeps the invariant\<close>

lemma queue_size_Cons: "queue_size (e # q) = ev_size (snd e) + queue_size q"
  by (simp add: queue_size_def)

lemma armed_Insert:
  "k < 103 \<Longrightarrow> Insert (k * 1000000000 + 1000000000, CheckThroughputEv) [(103000000000, StopEv)] = armed (Suc k)"
  by (auto simp: armed_def)

lemma written_CheckThroughput:
  assumes "written name nS txp base k w" "1 \<le> k"
    and "m_CSVfileName (exper w) = name" "m_nSinks (exper w) = nS"
    and "m_protocolName (exper w) = ''AODV''" "m_txp (exper w) = txp"
    and "m_currentTs w = k * 1000000000"
  shows "written name nS txp base (Suc k) (CheckThroughput w)"
proof -
  from assms(1) obtain rows where f: "files w name = Some (base @ map Row rows)"
    and r: "rows_ok nS txp k rows"
    by (auto simp: written_def)
  have "files (CheckThroughput w) name = Some (base @ map Row (rows @ [sample w]))"
    using f assms(3) by (simp add: CheckThroughput_files append_line_def)
  moreover have "rows_ok nS txp (Suc k) (rows @ [sample w])"
    using r assms(2-7) by (simp add: rows_ok_def sample_def GetSeconds_whole)
  ultimately show ?thesis
    unfolding written_def by blast
qed

lemma step_net:
  assumes inv: "sampler_inv name nS txp base k w"
    and hd: "m_events w = (t, NetEv cb fs) # rest"
  shows "sampler_inv name nS txp base k (ProcessOneEvent env w) \<and>
         Suc (queue_size (m_events (ProcessOneEvent env w))) = queue_size (m_events w)"
proof -
  define w1 where "w1 = w\<lparr>m_events := rest, m_currentTs := t\<rparr>"
  define w2 where "w2 = (case cb of None \<Rightarrow> w1 | Some socket \<Rightarrow> ReceivePacket env socket w1)"
  have p: "ProcessOneEvent env w = Schedule_all fs w2"
    unfolding w2_def w1_def by (simp add: ProcessOneEvent_def hd)
  have ev2: "m_events w2 = rest" and st2: "m_stop w2 = m_stop w" and fi2: "files w2 = files w"
    by (simp_all add: w2_def w1_def ReceivePacket_def ReceivePacket_loop_fields split: option.split)
  have ex2: "m_CSVfileName (exper w2) = m_CSVfileName (exper w)"
    "m_nSinks (exper w2) = m_nSinks (exper w)"
    "m_protocolName (exper w2) = m_protocolName (exper w)"
    "m_txp (exper w2) = m_txp (exper w)"
    by (simp_all add: w2_def w1_def ReceivePacket_def ReceivePacket_loop_exper split: option.split)
  from inv hd have srt: "sorted (map fst (m_events w2))"
    by (simp add: sampler_inv_def ev2)
  note sa = Schedule_all_events [OF srt, of fs]
  have "written name nS txp base k (Schedule_all fs w2)"
    using inv by (simp add: sampler_inv_def written_def Schedule_all_fields fi2)
  with inv sa show ?thesis
    unfolding p
    by (simp add: sampler_inv_def Schedule_all_fields ev2 st2 ex2 hd queue_size_def)
qed

lemma step_sampler:
  assumes inv: "sampler_inv name nS txp base k w"
    and hd: "m_events w = (t, CheckThroughputEv) # rest"
  shows "k < 103 \<and> sampler_inv name nS txp base (Suc k) (ProcessOneEvent env w) \<and>
         queue_size (m_events (ProcessOneEvent env w)) = queue_size (m_events w)"
proof -
  define w1 where "w1 = w\<lparr>m_events := rest, m_currentTs := t\<rparr>"
  have p: "ProcessOneEvent env w = CheckThroughput w1"
    by (simp add: ProcessOneEvent_def hd w1_def)
  from inv hd have a: "(t, CheckThroughputEv) # filter (\<lambda>x. \<not> is_net x) rest = armed k"
    by (simp add: sampler_inv_def)
  then have k: "k < 103" and t: "t = k * 1000000000"
    and r: "filter (\<lambda>x. \<not> is_net x) rest = [(103000000000, StopEv)]"
    by (auto simp: armed_def split: if_splits)
  from inv hd have srt: "sorted (map fst rest)"
    by (simp add: sampler_inv_def)
  have w1: "written name nS txp base k w1"
    using inv by (simp add: sampler_inv_def written_def w1_def)
  have wr: "written name nS txp base (Suc k) (CheckThroughput w1)"
    by (rule written_CheckThroughput [OF w1]) (use inv in \<open>simp_all add: sampler_inv_def w1_def t\<close>)
  have "filter (\<lambda>x. \<not> is_net x) (m_events (CheckThroughput w1)) =
          Insert (k * 1000000000 + 1000000000, CheckThroughputEv) (filter (\<lambda>x. \<not> is_net x) rest)"
    using srt by (simp add: CheckThroughput_fields w1_def filter_Insert t)
  also have "\<dots> = armed (Suc k)"
    unfolding r using k by (rule armed_Insert)
  finally have "filter (\<lambda>x. \<not> is_net x) (m_events (CheckThroughput w1)) = armed (Suc k)" .
  moreover have "sorted (map fst (m_events (CheckThroughput w1)))"
    using srt by (simp add: CheckThroughput_fields w1_def sorted_Insert)
  ultimately show ?thesis
    using inv k wr unfolding p
    by (simp add: sampler_inv_def CheckThroughput_fields w1_def hd queue_size_Insert queue_size_Cons)
qed

lemma step_stop:
  assumes inv: "sampler_inv name nS txp base k w"
    and hd: "m_events w = (t, StopEv) # rest"
  shows "m_stop (ProcessOneEvent env w) \<and> written name nS txp base 103 (ProcessOneEvent env w) \<and>
         (103000000000, CheckThroughputEv) \<in> set (m_events (ProcessOneEvent env w)) \<and>
         m_currentTs (ProcessOneEvent env w) = 103000000000"
proof -
  from inv hd have a: "(t, StopEv) # filter (\<lambda>x. \<not> is_net x) rest = armed k"
    by (simp add: sampler_inv_def)
  then have k: "k = 103" and t: "t = 103000000000"
    using inv by (auto simp: armed_def sampler_inv_def split: if_splits)
  from a have "filter (\<lambda>x. \<not> is_net x) rest = [(103000000000, CheckThroughputEv)]"
    by (simp add: armed_def k)
  then have "(103000000000, CheckThroughputEv) \<in> set (filter (\<lambda>x. \<not> is_net x) rest)"
    by simp
  then have "(103000000000, CheckThroughputEv) \<in> set rest"
    by simp
  with inv k t show ?thesis
    by (simp add: ProcessOneEvent_def hd sampler_inv_def written_def)
qed

lemma inv_nonempty: "sampler_inv name nS txp base k w \<Longrightarrow> m_events w \<noteq> [] \<and> \<not> m_stop w"
  by (auto simp: sampler_inv_def armed_def split: if_splits)

lemma run_to_stop:
  "sampler_inv name nS txp base k w \<Longrightarrow> queue_size (m_events w) + (104 - k) \<le> fuel \<Longrightarrow>
     \<exists>w'. Simulator_Run_loop env fuel w = Some w' \<and> m_stop w' \<and> written name nS txp base 103 w' \<and>
          (103000000000, CheckThroughputEv) \<in> set (m_events w') \<and> m_currentTs w' = 103000000000"
proof (induction fuel arbitrary: k w)
  case 0
  then show ?case by (simp add: sampler_inv_def)
next
  case (Suc fuel)
  from inv_nonempty [OF Suc.prems(1)] obtain t ev rest
    where hd: "m_events w = (t, ev) # rest" and ns: "\<not> m_stop w"
    by (cases "m_events w") auto
  have unf: "Simulator_Run_loop env (Suc fuel) w = Simulator_Run_loop env fuel (ProcessOneEvent env w)"
    using hd ns by simp
  show ?case
  proof (cases ev)
    case CheckThroughputEv
    from step_sampler [OF Suc.prems(1) hd [unfolded CheckThroughputEv], of env] Suc.prems(2)
    have "sampler_inv name nS txp base (Suc k) (ProcessOneEvent env w)"
      and "queue_size (m_events (ProcessOneEvent env w)) + (104 - Suc k) \<le> fuel"
      by auto
    then show ?thesis unfolding unf by (rule Suc.IH)
  next
    case StopEv
    from step_stop [OF Suc.prems(1) hd [unfolded StopEv], of env]
    show ?thesis unfolding unf by (cases fuel) auto
  next
    case (NetEv cb fs)
    from step_net [OF Suc.prems(1) hd [unfolded NetEv], of env] Suc.prems(2)
    have "sampler_inv name nS txp base k (ProcessOneEvent env w)"
      and "queue_size (m_events (ProcessOneEvent env w)) + (104 - k) \<le> fuel"
      by auto
    then show ?thesis unfolding unf by (rule Suc.IH)
  qed
qed

section \<open>The run as a whole\<close>

lemma ProcessOneEvent_installed: "installed (ProcessOneEvent env w) = installed w"
proof (cases "m_events w")
  case Nil
  then show ?thesis by (simp add: ProcessOneEvent_def)
next
  case (Cons e rest)
  obtain t ev where e: "e = (t, ev)" by (cases e)
  show ?thesis
    by (cases ev)
      (simp_all add: ProcessOneEvent_def Cons e CheckThroughput_fields Schedule_all_fields
        ReceivePacket_def ReceivePacket_loop_fields split: option.split)
qed

lemma Simulator_Run_loop_installed:
  "Simulator_Run_loop env fuel w = Some w' \<Longrightarrow> installed w' = installed w"
  by (induction fuel arbitrary: w) (auto simp: ProcessOneEvent_installed split: if_splits)

lemma queue_size_Nil: "queue_size [] = 0"
  by (simp add: queue_size_def)

lemma Run_result:
  assumes pairs: "Run_pairs env (port this) 103 nSinks 0 = Inr flows"
    and fuel: "fuel_needed env \<le> fuel"
  shows "\<exists>w'. Run env fuel nSinks txp name (boot this fs) = Some (Inr w') \<and> m_stop w' \<and>
           installed w' = flows \<and>
           (103000000000, CheckThroughputEv) \<in> set (m_events w') \<and>
           m_currentTs w' = 103000000000 \<and>
           written name nSinks txp
             (old_lines fs name @
              [Row \<lparr>SimulationSecond = 0,
                    ReceiveRate = (real (unat (bytesTotal this)) * 8) / 1000,
                    PacketsReceived = packetsReceived this,
                    NumberOfSinks = nSinks, RoutingProtocol = ''AODV'',
                    TransmissionPower = txp\<rparr>]) 103 w'"
proof -
  define this1 where "this1 = this\<lparr>m_nSinks := nSinks, m_txp := txp, m_CSVfileName := name,
    m_protocolName := ''protocol''\<rparr>"
  define w1 where "w1 = Schedule_all (setup_events env) ((boot this fs)\<lparr>exper := this1\<rparr>)"
  define w2 where "w2 = w1\<lparr>exper := (exper w1)\<lparr>m_protocolName := ''AODV''\<rparr>, installed := flows\<rparr>"
  define w3 where "w3 = CheckThroughput w2"
  define w4 where "w4 = Schedule (Seconds 103) StopEv w3"
  define w5 where "w5 = Schedule_all (late_events env) w4"
  define base where "base = old_lines fs name @
              [Row \<lparr>SimulationSecond = 0,
                    ReceiveRate = (real (unat (bytesTotal this)) * 8) / 1000,
                    PacketsReceived = packetsReceived this,
                    NumberOfSinks = nSinks, RoutingProtocol = ''AODV'',
                    TransmissionPower = txp\<rparr>]"
  have ex1: "exper w1 = this1"
    by (simp add: w1_def Schedule_all_fields)
  have run: "Run env fuel nSinks txp name (boot this fs) = map_option Inr (Simulator_Run env fuel w5)"
    unfolding w5_def w4_def w3_def w2_def w1_def this1_def
    using pairs by (simp add: Run_def Let_def Schedule_all_fields boot_def)
  have s0: "sorted (map fst (m_events ((boot this fs)\<lparr>exper := this1\<rparr>)))"
    by (simp add: boot_def)
  note e1 = Schedule_all_events [OF s0, of "setup_events env", folded w1_def]
  have ev2: "m_events w2 = m_events w1" and ts2: "m_currentTs w2 = 0"
    by (simp_all add: w2_def w1_def Schedule_all_fields boot_def)
  have ev3: "m_events w3 = Insert (1000000000, CheckThroughputEv) (m_events w1)"
    by (simp add: w3_def CheckThroughput_fields ev2 ts2)
  have ev4: "m_events w4 = Insert (103000000000, StopEv) (m_events w3)"
    by (simp add: w4_def Schedule_fields w3_def CheckThroughput_fields ts2 Seconds_103)
  have s3: "sorted (map fst (m_events w3))"
    using e1 by (simp add: ev3 sorted_Insert)
  have s4: "sorted (map fst (m_events w4))"
    using s3 by (simp add: ev4 sorted_Insert)
  have f3: "filter (\<lambda>x. \<not> is_net x) (m_events w3) = [(1000000000, CheckThroughputEv)]"
    using e1 by (simp add: ev3 filter_Insert boot_def)
  have f4: "filter (\<lambda>x. \<not> is_net x) (m_events w4) = armed 1"
    using s3 by (simp add: ev4 filter_Insert f3 armed_def)
  have q4: "queue_size (m_events w4) = sum_list (map net_size (setup_events env))"
    using e1 by (simp add: ev4 ev3 queue_size_Insert boot_def queue_size_Nil)
  note e5 = Schedule_all_events [OF s4, of "late_events env", folded w5_def]
  have ex5: "exper w5 = this1\<lparr>m_protocolName := ''AODV'', bytesTotal := 0, packetsReceived := 0\<rparr>"
    by (simp add: w5_def w4_def w3_def w2_def Schedule_all_fields Schedule_fields
        CheckThroughput_fields ex1)
  have fi5: "files w5 = append_line name (Row (sample w2)) fs"
    by (simp add: w5_def w4_def w3_def Schedule_all_fields Schedule_fields CheckThroughput_files)
      (simp add: w2_def w1_def Schedule_all_fields boot_def this1_def)
  have sm: "sample w2 = \<lparr>SimulationSecond = 0,
                    ReceiveRate = (real (unat (bytesTotal this)) * 8) / 1000,
                    PacketsReceived = packetsReceived this,
                    NumberOfSinks = nSinks, RoutingProtocol = ''AODV'',
                    TransmissionPower = txp\<rparr>"
    by (simp add: sample_def ts2 GetSeconds_def) (simp add: w2_def ex1 this1_def)
  have wr: "written name nSinks txp base 1 (w5\<lparr>m_stop := False\<rparr>)"
    by (simp add: written_def fi5 append_line_def sm base_def old_lines_def rows_ok_def)
  have inv: "sampler_inv name nSinks txp base 1 (w5\<lparr>m_stop := False\<rparr>)"
    using e5 wr by (simp add: sampler_inv_def f4 ex5 this1_def)
  have q: "queue_size (m_events (w5\<lparr>m_stop := False\<rparr>)) + (104 - 1) \<le> fuel"
    using e5 fuel by (simp add: q4 fuel_needed_def)
  from run_to_stop [OF inv q, of env] obtain w'
    where r: "Simulator_Run_loop env fuel (w5\<lparr>m_stop := False\<rparr>) = Some w'"
      and st: "m_stop w'" and wr': "written name nSinks txp base 103 w'"
      and arm: "(103000000000, CheckThroughputEv) \<in> set (m_events w')"
        "m_currentTs w' = 103000000000"
    by blast
  have "installed w' = flows"
    using Simulator_Run_loop_installed [OF r]
    by (simp add: w5_def w4_def w3_def w2_def Schedule_all_fields Schedule_fields CheckThroughput_fields)
  with r st wr' arm show ?thesis
    unfolding run base_def by (simp add: Simulator_Run_def)
qed

section \<open>The loop over the pairs\<close>

lemma Run_pairs_ok:
  "0 \<le> i \<Longrightarrow> i \<le> nSinks \<Longrightarrow> nSinks \<le> nWifis \<Longrightarrow>
     Run_pairs env prt T nSinks i =
       Inr (map (\<lambda>j. \<lparr>sinkNodeIndex = j, sourceNodeIndex = j + nSinks,
                      destinationIndex = j, destinationPort = prt,
                      sinkStart = GetValue (RandU01 env (nat j) 0) 0 1,
                      sinkStop = T,
                      sourceStart = GetValue (RandU01 env (nat j) 1) 100 101,
                      sourceStop = T\<rparr>) [i..nSinks - 1])"
proof (induction env prt T nSinks i rule: Run_pairs.induct)
  case (1 env prt T nSinks i)
  show ?case
  proof (cases "i < nSinks")
    case True
    with "1.prems" have rng: "i < 2 * nWifis \<and> i + nSinks < 2 * nWifis"
      by (simp add: nWifis_def)
    from True rng "1.prems" have ih: "Run_pairs env prt T nSinks (i + 1) =
       Inr (map (\<lambda>j. \<lparr>sinkNodeIndex = j, sourceNodeIndex = j + nSinks,
                      destinationIndex = j, destinationPort = prt,
                      sinkStart = GetValue (RandU01 env (nat j) 0) 0 1,
                      sinkStop = T,
                      sourceStart = GetValue (RandU01 env (nat j) 1) 100 101,
                      sourceStop = T\<rparr>) [i + 1..nSinks - 1])"
      by (intro "1.IH") simp_all
    from True have u: "[i..nSinks - 1] = i # [i + 1..nSinks - 1]"
      by (simp add: upto_rec1)
    show ?thesis
      by (subst Run_pairs.simps) (simp add: True rng ih u)
  next
    case False
    then show ?thesis
      by (subst Run_pairs.simps) simp
  qed
qed

lemma Run_pairs_beyond:
  "0 \<le> i \<Longrightarrow> i < nSinks \<Longrightarrow> nWifis < nSinks \<Longrightarrow> Run_pairs env prt T nSinks i = Inl IndexOutOfRange"
proof (induction env prt T nSinks i rule: Run_pairs.induct)
  case (1 env prt T nSinks i)
  show ?case
  proof (cases "i < 2 * nWifis \<and> i + nSinks < 2 * nWifis")
    case True
    with "1.prems" have "i + 1 < nSinks"
      by (simp add: nWifis_def)
    with True "1.prems" have "Run_pairs env prt T nSinks (i + 1) = Inl IndexOutOfRange"
      by (intro "1.IH") simp_all
    with True "1.prems" show ?thesis
      by (subst Run_pairs.simps) simp
  next
    case False
    with "1.prems" show ?thesis
      by (subst Run_pairs.simps) auto
  qed
qed

section \<open>The protocol selector is never read\<close>










section \<open>The sampler never stops by itself\<close>

lemma Schedule_net_set:
  "snd ` set (m_events (Schedule_net e w)) =
     insert (NetEv (callback e) (follow_ups e)) (snd ` set (m_events w))"
  by (cases e) (simp add: Schedule_fields set_Insert)

lemma Schedule_all_member:
  "ev = CheckThroughputEv \<or> ev = StopEv \<Longrightarrow>
     ev \<in> snd ` set (m_events (Schedule_all es w)) \<longleftrightarrow> ev \<in> snd ` set (m_events w)"
  unfolding Schedule_all_def
proof (induction es arbitrary: w)
  case Nil
  then show ?case by simp
next
  case (Cons e es)
  then show ?case
    by (auto simp: Schedule_net_set)
qed

lemma self_armed_step: "self_armed w \<Longrightarrow> self_armed (ProcessOneEvent env w)"
proof (cases "m_events w")
  case Nil
  assume "self_armed w"
  with Nil show ?thesis by (simp add: self_armed_def)
next
  case (Cons e rest)
  assume a: "self_armed w"
  obtain t ev where e: "e = (t, ev)" by (cases e)
  show ?thesis
  proof (cases ev)
    case CheckThroughputEv
    with a Cons e show ?thesis
      by (simp add: self_armed_def ProcessOneEvent_def CheckThroughput_fields set_Insert)
  next
    case StopEv
    with a Cons e show ?thesis
      by (simp add: self_armed_def)
  next
    case (NetEv cb fs)
    have "m_events (case cb of None \<Rightarrow> w\<lparr>m_events := rest, m_currentTs := t\<rparr>
        | Some socket \<Rightarrow> ReceivePacket env socket (w\<lparr>m_events := rest, m_currentTs := t\<rparr>)) = rest"
      "m_stop (case cb of None \<Rightarrow> w\<lparr>m_events := rest, m_currentTs := t\<rparr>
        | Some socket \<Rightarrow> ReceivePacket env socket (w\<lparr>m_events := rest, m_currentTs := t\<rparr>)) = m_stop w"
      by (simp_all add: ReceivePacket_def ReceivePacket_loop_fields split: option.split)
    with a Cons e NetEv show ?thesis
      by (simp add: self_armed_def ProcessOneEvent_def Schedule_all_member Schedule_all_fields)
  qed
qed

lemma self_armed_forever: "self_armed w \<Longrightarrow> Simulator_Run_loop env fuel w = None"
proof (induction fuel arbitrary: w)
  case 0
  then show ?case by (auto simp: self_armed_def)
next
  case (Suc fuel)
  from Suc.prems have "m_events w \<noteq> [] \<and> \<not> m_stop w"
    by (auto simp: self_armed_def)
  with Suc.IH [OF self_armed_step [OF Suc.prems]] show ?case
    by simp
qed

lemma CheckThroughput_arms:
  "(m_currentTs w + Seconds 1, CheckThroughputEv) \<in> set (m_events (CheckThroughput w))"
  by (simp add: CheckThroughput_fields set_Insert Seconds_1)

lemma CheckThroughput_self_armed:
  "\<not> m_stop w \<Longrightarrow> StopEv \<notin> snd ` set (m_events w) \<Longrightarrow> self_armed (CheckThroughput w)"
  by (simp add: self_armed_def CheckThroughput_fields set_Insert)

section \<open>The counters over a window\<close>

lemma word_sum_sizes:
  "sum_list (map (\<lambda>p. GetSize (fst p)) ps) = (of_nat (sum_list (map sizeBytes ps)) :: 32 word)"
  by (induction ps) (simp_all add: sizeBytes_def)

lemma ReceivePacket_exper:
  "exper (ReceivePacket env socket w) =
     (exper w)\<lparr>bytesTotal := bytesTotal (exper w) + of_nat (sum_list (map sizeBytes (pending socket))),
               packetsReceived := packetsReceived (exper w) + of_nat (length (pending socket))\<rparr>"
  by (simp add: ReceivePacket_def ReceivePacket_loop_exper word_sum_sizes)

lemma deliver_exper:
  "exper (deliver env sockets w) =
     (exper w)\<lparr>bytesTotal := bytesTotal (exper w) + of_nat (sum_list (map sizeBytes (window sockets))),
               packetsReceived := packetsReceived (exper w) + of_nat (length (window sockets))\<rparr>"
  unfolding deliver_def window_def
proof (induction sockets arbitrary: w)
  case Nil
  then show ?case by simp
next
  case (Cons s ss)
  show ?case
    by (simp add: Cons.IH ReceivePacket_exper algebra_simps)
qed

lemma deliver_fields:
  "files (deliver env sockets w) = files w"
  "m_currentTs (deliver env sockets w) = m_currentTs w"
  "m_events (deliver env sockets w) = m_events w"
  "m_stop (deliver env sockets w) = m_stop w"
  unfolding deliver_def
  by (induction sockets arbitrary: w; simp add: ReceivePacket_def ReceivePacket_loop_fields)+

lemma data_rows_append: "data_rows (xs @ ys) = data_rows xs @ data_rows ys"
  by (induction xs rule: data_rows.induct) simp_all

lemma data_rows_Row: "data_rows (map Row rows) = rows"
  by (induction rows) simp_all

lemma lines_of_CheckThroughput:
  "lines_of (m_CSVfileName (exper w)) (CheckThroughput w) =
     lines_of (m_CSVfileName (exper w)) w @ [Row (sample w)]"
  by (simp add: lines_of_def old_lines_def CheckThroughput_files append_line_def)

lemma unat_of_nat32: "unat (of_nat n :: 32 word) = n mod 4294967296"
  by (simp add: unat_of_nat)

section \<open>The file after a run\<close>

lemma rows_ok_columns:
  assumes "rows_ok nS txp k rows"
  shows "length rows = k - 1"
    and "map SimulationSecond rows = map real [1..<k]"
    and "map RoutingProtocol rows = replicate (k - 1) ''AODV''"
proof -
  let ?f = "\<lambda>r. (SimulationSecond r, NumberOfSinks r, RoutingProtocol r, TransmissionPower r)"
  let ?g = "\<lambda>j. (real j, nS, ''AODV'', txp)"
  from assms have eq: "map ?f rows = map ?g [1..<k]"
    by (simp add: rows_ok_def)
  from arg_cong [OF eq, of length] show len: "length rows = k - 1"
    by simp
  from arg_cong [OF eq, of "map fst"] show "map SimulationSecond rows = map real [1..<k]"
    by (simp add: comp_def)
  from arg_cong [OF eq, of "map (\<lambda>x. fst (snd (snd x)))"]
  have "map RoutingProtocol rows = map (\<lambda>j. ''AODV'') [1..<k]"
    by (simp add: comp_def)
  then show "map RoutingProtocol rows = replicate (k - 1) ''AODV''"
    by (simp add: map_replicate_const)
qed

lemma seconds_from_zero: "0 # map real [1..<103] = map real [0..<103]"
proof -
  have "[0..<103] = 0 # [1..<103]"
    by (simp add: upt_conv_Cons)
  then show ?thesis
    by simp
qed

lemma Run_lines:
  assumes "0 \<le> nSinks" "nSinks \<le> nWifis" "fuel_needed env \<le> fuel"
  shows "\<exists>w' rows. Run env fuel nSinks txp name (boot this fs) = Some (Inr w') \<and>
           m_stop w' \<and> m_currentTs w' = 103000000000 \<and>
           (103000000000, CheckThroughputEv) \<in> set (m_events w') \<and>
           lines_of name w' =
             old_lines fs name @
             Row \<lparr>SimulationSecond = 0,
                  ReceiveRate = (real (unat (bytesTotal this)) * 8) / 1000,
                  PacketsReceived = packetsReceived this,
                  NumberOfSinks = nSinks, RoutingProtocol = ''AODV'',
                  TransmissionPower = txp\<rparr> # map Row rows \<and>
           rows_ok nSinks txp 103 rows"
proof -
  from assms(1,2) obtain flows where "Run_pairs env (port this) 103 nSinks 0 = Inr flows"
    using Run_pairs_ok [of 0 nSinks env "port this" 103] by simp
  from Run_result [OF this assms(3), of txp name fs] show ?thesis
    by (auto simp: written_def lines_of_def old_lines_def)
qed

lemma main_lines:
  assumes "fuel_needed env \<le> fuel"
  shows "\<exists>w' rows. main env cmd fuel fs = Some (Inr w') \<and>
           m_stop w' \<and> m_currentTs w' = 103000000000 \<and>
           (103000000000, CheckThroughputEv) \<in> set (m_events w') \<and>
           lines_of (fst (CommandSetup cmd (RoutingExperiment_ctor env))) w' =
             Header header_line #
             Row \<lparr>SimulationSecond = 0, ReceiveRate = 0, PacketsReceived = 0,
                  NumberOfSinks = 15, RoutingProtocol = ''AODV'',
                  TransmissionPower = 7.5\<rparr> # map Row rows \<and>
           rows_ok 15 7.5 103 rows"
proof -
  obtain name this where cs: "CommandSetup cmd (RoutingExperiment_ctor env) = (name, this)"
    by (cases "CommandSetup cmd (RoutingExperiment_ctor env)")
  then have z: "bytesTotal this = 0" "packetsReceived this = 0"
    by (auto simp: CommandSetup_def RoutingExperiment_ctor_def Let_def split: option.splits)
  have m: "main env cmd fuel fs = Run env fuel 15 7.5 name (boot this (fs(name \<mapsto> [Header header_line])))"
    by (simp add: main_def cs)
  from Run_lines [of 15 env fuel "7.5" name this "fs(name \<mapsto> [Header header_line])"] assms
  show ?thesis
    unfolding m cs by (simp add: nWifis_def old_lines_def z)
qed

lemma main_result_lines:
  assumes "fuel_needed env \<le> fuel"
  shows "\<exists>rows. result_lines (fst (CommandSetup cmd (RoutingExperiment_ctor env))) (main env cmd fuel fs) =
             Header header_line #
             Row \<lparr>SimulationSecond = 0, ReceiveRate = 0, PacketsReceived = 0,
                  NumberOfSinks = 15, RoutingProtocol = ''AODV'',
                  TransmissionPower = 7.5\<rparr> # map Row rows \<and>
           rows_ok 15 7.5 103 rows"
  using main_lines [OF assms, of cmd fs] by (auto simp: result_lines_def)

lemma fuel_demo: "fuel_needed demo_env = 105"
  by (simp add: fuel_needed_def demo_env_def)

lemma name_demo: "fst (CommandSetup no_args (RoutingExperiment_ctor demo_env)) = ''AODV-simulation.csv''"
  by (simp add: CommandSetup_def no_args_def RoutingExperiment_ctor_def)

lemma data_rows_main_shape: "data_rows (Header h # Row r # map Row rows) = r # rows"
  by (simp add: data_rows_Row)

lemma interval_one: "GetSeconds (Seconds 1) = 1"
  by (simp add: Seconds_1 GetSeconds_def)




lemma Run_result_lines:
  assumes "0 \<le> nSinks" "nSinks \<le> nWifis" "fuel_needed env \<le> fuel"
  shows "\<exists>rows. \<not> failed (Run env fuel nSinks txp name (boot this fs)) \<and>
           halted_armed (Run env fuel nSinks txp name (boot this fs)) \<and>
           result_lines name (Run env fuel nSinks txp name (boot this fs)) =
             old_lines fs name @
             Row \<lparr>SimulationSecond = 0,
                  ReceiveRate = (real (unat (bytesTotal this)) * 8) / 1000,
                  PacketsReceived = packetsReceived this,
                  NumberOfSinks = nSinks, RoutingProtocol = ''AODV'',
                  TransmissionPower = txp\<rparr> # map Row rows \<and>
           rows_ok nSinks txp 103 rows"
  using Run_lines [OF assms, of txp name this fs]
  by (auto simp: result_lines_def failed_def halted_armed_def Seconds_103)

lemma last_row_second:
  "last_row (m_CSVfileName (exper w)) (CheckThroughput (deliver env sockets (CheckThroughput w))) =
     \<lparr>SimulationSecond = GetSeconds (m_currentTs w),
      ReceiveRate = (real (sum_list (map sizeBytes (window sockets)) mod 4294967296) * 8) / 1000,
      PacketsReceived = of_nat (length (window sockets)),
      NumberOfSinks = m_nSinks (exper w),
      RoutingProtocol = m_protocolName (exper w),
      TransmissionPower = m_txp (exper w)\<rparr>"
proof -
  define w2 where "w2 = deliver env sockets (CheckThroughput w)"
  have n: "m_CSVfileName (exper w2) = m_CSVfileName (exper w)"
    by (simp add: w2_def deliver_exper CheckThroughput_fields)
  have "sample w2 = \<lparr>SimulationSecond = GetSeconds (m_currentTs w),
          ReceiveRate = (real (sum_list (map sizeBytes (window sockets)) mod 4294967296) * 8) / 1000,
          PacketsReceived = of_nat (length (window sockets)),
          NumberOfSinks = m_nSinks (exper w),
          RoutingProtocol = m_protocolName (exper w),
          TransmissionPower = m_txp (exper w)\<rparr>"
    by (simp add: sample_def w2_def deliver_exper deliver_fields CheckThroughput_fields unat_of_nat32)
  with lines_of_CheckThroughput [of w2] show ?thesis
    by (simp add: n w2_def [symmetric] last_row_def data_rows_append)
qed

lemma unat_plus_of_nat32: "unat (a + of_nat n :: 32 word) = (unat a + n) mod 4294967296"
  by (simp add: unat_word_ariths unat_of_nat32 mod_add_right_eq)

lemma last_row_twice:
  "last_row (m_CSVfileName (exper w)) (CheckThroughput (CheckThroughput w)) =
     \<lparr>SimulationSecond = GetSeconds (m_currentTs w),
      ReceiveRate = 0, PacketsReceived = 0,
      NumberOfSinks = m_nSinks (exper w),
      RoutingProtocol = m_protocolName (exper w),
      TransmissionPower = m_txp (exper w)\<rparr>"
  using last_row_second [of w env "[]"]
  by (simp add: deliver_def window_def)

lemma GetValue_range:
  "0 \<le> u \<Longrightarrow> u < 1 \<Longrightarrow>
     0 \<le> GetValue u 0 1 \<and> GetValue u 0 1 < 1 \<and> 100 \<le> GetValue u 100 101 \<and> GetValue u 100 101 < 101"
  by (simp add: GetValue_def)

lemma boot_fields:
  "m_stop (boot this fs) = False" "m_events (boot this fs) = []" "m_currentTs (boot this fs) = 0"
  "exper (boot this fs) = this" "files (boot this fs) = fs"
  by (simp_all add: boot_def)

lemma headers_CheckThroughput:
  "filter is_Header (lines_of name (CheckThroughput w)) = filter is_Header (lines_of name w)"
  by (simp add: lines_of_def old_lines_def CheckThroughput_files append_line_def split: option.split)

lemma headers_firings:
  "filter is_Header (lines_of name ((CheckThroughput ^^ n) w)) = filter is_Header (lines_of name w)"
  by (induction n) (simp_all add: headers_CheckThroughput)






section \<open>The claims\<close>

text \<open>
  C1, as the code has it. The timestamps of the rows that \<open>main\<close> writes are
  \<open>0, 1, \<dots>, 102\<close> seconds: an arithmetic sequence whose common difference is the sampling
  interval of one simulated second and whose first element is 0, because \<open>Run\<close> calls
  \<open>CheckThroughput\<close> itself before it starts the simulator. The last row is the one of
  second 102: at 103 seconds the stop event, scheduled first, is dispatched before the
  sampler.
\<close>

theorem C1_timestamps:
  "fuel_needed env \<le> fuel \<Longrightarrow>
     map SimulationSecond
       (data_rows (result_lines (fst (CommandSetup cmd (RoutingExperiment_ctor env)))
          (main env cmd fuel fs))) =
     map (\<lambda>k. real k * GetSeconds (Seconds 1)) [0..<103]"
proof -
  assume "fuel_needed env \<le> fuel"
  from main_result_lines [OF this, of cmd fs] obtain rows
    where l: "result_lines (fst (CommandSetup cmd (RoutingExperiment_ctor env))) (main env cmd fuel fs) =
             Header header_line #
             Row \<lparr>SimulationSecond = 0, ReceiveRate = 0, PacketsReceived = 0,
                  NumberOfSinks = 15, RoutingProtocol = ''AODV'',
                  TransmissionPower = 7.5\<rparr> # map Row rows"
      and r: "rows_ok 15 7.5 103 rows"
    by blast
  show ?thesis
    unfolding l data_rows_main_shape interval_one
    using rows_ok_columns(2) [OF r] seconds_from_zero by simp
qed

text \<open>C1 at a concrete run: the demonstration environment with 105 dispatches allowed.\<close>

theorem C1_timestamps_witness:
  "fuel_needed demo_env \<le> 105 \<and>
   map SimulationSecond
     (data_rows (result_lines ''AODV-simulation.csv'' (main demo_env no_args 105 Map.empty))) =
   map (\<lambda>k. real k * GetSeconds (Seconds 1)) [0..<103]"
  using C1_timestamps [of demo_env 105 no_args Map.empty]
  by (simp add: fuel_demo name_demo)

text \<open>
  C1 as stated asks for the first timestamp to be the interval. In the demonstration run
  the first row carries 0 seconds, not 1.
\<close>

theorem C1_counterexample:
  "SimulationSecond
     (hd (data_rows (result_lines ''AODV-simulation.csv'' (main demo_env no_args 105 Map.empty)))) \<noteq>
   GetSeconds (Seconds 1)"
proof -
  have "fuel_needed demo_env \<le> 105"
    by (simp add: fuel_demo)
  from main_result_lines [OF this, of no_args Map.empty] show ?thesis
    unfolding name_demo interval_one by (auto simp: data_rows_Row)
qed




text \<open>
  C3, as the code has it. After a firing of the sampler, let the receive callback run on
  any sequence of sockets, and let the sampler fire again. The row of the second firing
  has as rate 8 times the sum of the sizes of the received packets, taken modulo \<open>2\<^sup>3\<^sup>2\<close>,
  divided by 1000, and as packet count the number of received packets modulo \<open>2\<^sup>3\<^sup>2\<close>:
  the counters are \<^verbatim>\<open>uint32_t\<close>. While the sum and the number stay below \<open>2\<^sup>3\<^sup>2\<close>, these
  are the sum and the number themselves.
\<close>

theorem C3_window_row:
  "ReceiveRate (last_row (m_CSVfileName (exper w))
       (CheckThroughput (deliver env sockets (CheckThroughput w)))) =
     (real (sum_list (map sizeBytes (window sockets)) mod 4294967296) * 8) / 1000 \<and>
   unat (PacketsReceived (last_row (m_CSVfileName (exper w))
       (CheckThroughput (deliver env sockets (CheckThroughput w))))) =
     length (window sockets) mod 4294967296 \<and>
   (sum_list (map sizeBytes (window sockets)) < 4294967296 \<longrightarrow>
      ReceiveRate (last_row (m_CSVfileName (exper w))
         (CheckThroughput (deliver env sockets (CheckThroughput w)))) =
      (real (sum_list (map sizeBytes (window sockets))) * 8) / 1000) \<and>
   (length (window sockets) < 4294967296 \<longrightarrow>
      unat (PacketsReceived (last_row (m_CSVfileName (exper w))
         (CheckThroughput (deliver env sockets (CheckThroughput w))))) =
      length (window sockets))"
  by (simp add: last_row_second unat_of_nat32)

text \<open>
  C3 at a concrete window: one packet of 512 bytes gives the rate 4.096 and the count 1.
\<close>

theorem C3_window_row_witness:
  "sum_list (map sizeBytes (window [\<lparr>GetId = 3, pending = [(Packet 512, OtherAddress)]\<rparr>])) < 4294967296 \<and>
   length (window [\<lparr>GetId = 3, pending = [(Packet 512, OtherAddress)]\<rparr>]) < 4294967296 \<and>
   ReceiveRate (last_row ''AODV-simulation.csv''
       (CheckThroughput (deliver demo_env [\<lparr>GetId = 3, pending = [(Packet 512, OtherAddress)]\<rparr>]
          (CheckThroughput (boot (RoutingExperiment_ctor demo_env) Map.empty))))) = 4.096 \<and>
   unat (PacketsReceived (last_row ''AODV-simulation.csv''
       (CheckThroughput (deliver demo_env [\<lparr>GetId = 3, pending = [(Packet 512, OtherAddress)]\<rparr>]
          (CheckThroughput (boot (RoutingExperiment_ctor demo_env) Map.empty)))))) = 1"
  using C3_window_row [where w = "boot (RoutingExperiment_ctor demo_env) Map.empty"
      and env = demo_env and sockets = "[\<lparr>GetId = 3, pending = [(Packet 512, OtherAddress)]\<rparr>]"]
  by (simp add: window_def sizeBytes_def boot_def RoutingExperiment_ctor_def)

text \<open>
  C3 as stated asks for the rate of the sum itself. A window in which two sockets
  deliver 4194304 packets of 512 bytes each carries \<open>2\<^sup>3\<^sup>2\<close> bytes; the byte counter has
  wrapped to 0 and the row reports the rate 0, not 34359738.368.
\<close>

theorem C3_counterexample:
  "ReceiveRate (last_row ''AODV-simulation.csv''
       (CheckThroughput (deliver demo_env
          [\<lparr>GetId = 3, pending = replicate 4194304 (Packet 512, OtherAddress)\<rparr>,
           \<lparr>GetId = 4, pending = replicate 4194304 (Packet 512, OtherAddress)\<rparr>]
          (CheckThroughput (boot (RoutingExperiment_ctor demo_env) Map.empty))))) \<noteq>
   (real (sum_list (map sizeBytes
      (window [\<lparr>GetId = 3, pending = replicate 4194304 (Packet 512, OtherAddress)\<rparr>,
               \<lparr>GetId = 4, pending = replicate 4194304 (Packet 512, OtherAddress)\<rparr>]))) * 8) / 1000"
proof -
  have n: "m_CSVfileName (exper (boot (RoutingExperiment_ctor demo_env) Map.empty)) = ''AODV-simulation.csv''"
    by (simp add: boot_def RoutingExperiment_ctor_def)
  have s: "sum_list (map sizeBytes
      (window [\<lparr>GetId = 3, pending = replicate 4194304 (Packet 512, OtherAddress)\<rparr>,
               \<lparr>GetId = 4, pending = replicate 4194304 (Packet 512, OtherAddress)\<rparr>])) = 4294967296"
    by (simp add: window_def sizeBytes_def sum_list_replicate)
  show ?thesis
    using last_row_second [of "boot (RoutingExperiment_ctor demo_env) Map.empty" demo_env
        "[\<lparr>GetId = 3, pending = replicate 4194304 (Packet 512, OtherAddress)\<rparr>,
          \<lparr>GetId = 4, pending = replicate 4194304 (Packet 512, OtherAddress)\<rparr>]"]
    unfolding n s by simp
qed

text \<open>
  C4. For every number of sinks from 0 to \<open>nWifis\<close> and random numbers drawn from
  \<open>[0, 1)\<close>, the loop over the pairs returns one flow for each index \<open>i\<close> below the number
  of sinks: the sink on node \<open>i\<close> with the start time \<open>GetValue (0, 1)\<close> of the first draw,
  which lies in \<open>[0, 1)\<close>, the source on node \<open>i + nSinks\<close> with the start time
  \<open>GetValue (100, 101)\<close> of the second draw, which lies in \<open>[100, 101)\<close>, both stopping at
  \<open>TotalTime\<close>. Whenever \<open>TotalTime\<close> is at least 101, each start time is below its stop
  time.
\<close>

theorem C4_flows:
  assumes "0 \<le> nSinks" and "nSinks \<le> nWifis"
    and "\<forall>i k. 0 \<le> RandU01 env i k \<and> RandU01 env i k < 1"
  shows "\<exists>flows. Run_pairs env prt TotalTime nSinks 0 = Inr flows \<and> length flows = nat nSinks \<and>
     (\<forall>i<nat nSinks.
        sinkNodeIndex (flows ! i) = int i \<and> sourceNodeIndex (flows ! i) = int i + nSinks \<and>
        sinkStart (flows ! i) = GetValue (RandU01 env i 0) 0 1 \<and>
        0 \<le> sinkStart (flows ! i) \<and> sinkStart (flows ! i) < 1 \<and>
        sourceStart (flows ! i) = GetValue (RandU01 env i 1) 100 101 \<and>
        100 \<le> sourceStart (flows ! i) \<and> sourceStart (flows ! i) < 101 \<and>
        sinkStop (flows ! i) = TotalTime \<and> sourceStop (flows ! i) = TotalTime \<and>
        (101 \<le> TotalTime \<longrightarrow>
           sinkStart (flows ! i) < sinkStop (flows ! i) \<and>
           sourceStart (flows ! i) < sourceStop (flows ! i)))"
proof -
  let ?f = "\<lambda>j. \<lparr>sinkNodeIndex = j, sourceNodeIndex = j + nSinks,
                      destinationIndex = j, destinationPort = prt,
                      sinkStart = GetValue (RandU01 env (nat j) 0) 0 1,
                      sinkStop = TotalTime,
                      sourceStart = GetValue (RandU01 env (nat j) 1) 100 101,
                      sourceStop = TotalTime\<rparr>"
  have run: "Run_pairs env prt TotalTime nSinks 0 = Inr (map ?f [0..nSinks - 1])"
    using assms(1,2) by (intro Run_pairs_ok) simp_all
  have len: "length (map ?f [0..nSinks - 1]) = nat nSinks"
    using assms(1) by simp
  have el: "map ?f [0..nSinks - 1] ! i = ?f (int i)" if "i < nat nSinks" for i
    using that by (simp add: nth_upto)
  have rng: "0 \<le> GetValue (RandU01 env i 0) 0 1 \<and> GetValue (RandU01 env i 0) 0 1 < 1 \<and>
       100 \<le> GetValue (RandU01 env i 1) 100 101 \<and> GetValue (RandU01 env i 1) 100 101 < 101" for i
    using GetValue_range [of "RandU01 env i 0"] GetValue_range [of "RandU01 env i 1"] assms(3)
    by simp
  let ?fl = "map ?f [0..nSinks - 1]"
  have props: "sinkNodeIndex (?fl ! i) = int i \<and> sourceNodeIndex (?fl ! i) = int i + nSinks \<and>
        sinkStart (?fl ! i) = GetValue (RandU01 env i 0) 0 1 \<and>
        0 \<le> sinkStart (?fl ! i) \<and> sinkStart (?fl ! i) < 1 \<and>
        sourceStart (?fl ! i) = GetValue (RandU01 env i 1) 100 101 \<and>
        100 \<le> sourceStart (?fl ! i) \<and> sourceStart (?fl ! i) < 101 \<and>
        sinkStop (?fl ! i) = TotalTime \<and> sourceStop (?fl ! i) = TotalTime \<and>
        (101 \<le> TotalTime \<longrightarrow>
           sinkStart (?fl ! i) < sinkStop (?fl ! i) \<and>
           sourceStart (?fl ! i) < sourceStop (?fl ! i))" if "i < nat nSinks" for i
    unfolding el [OF that] using rng [of i] by simp
  show ?thesis
    by (rule exI [of _ ?fl]) (use run len props in blast)
qed

text \<open>C4 at the 15 sinks and 103 seconds of the program, looking at the last pair.\<close>

theorem C4_flows_witness:
  "0 \<le> (15::int) \<and> 15 \<le> nWifis \<and>
   (\<forall>i k. 0 \<le> RandU01 demo_env i k \<and> RandU01 demo_env i k < 1) \<and> (101::real) \<le> 103 \<and>
   (\<exists>flows. Run_pairs demo_env 9 103 15 0 = Inr flows \<and> length flows = 15 \<and>
      sinkNodeIndex (flows ! 14) = 14 \<and> sourceNodeIndex (flows ! 14) = 29 \<and>
      sinkStart (flows ! 14) = 1 / 2 \<and> sourceStart (flows ! 14) = 201 / 2 \<and>
      sinkStop (flows ! 14) = 103 \<and> sourceStop (flows ! 14) = 103 \<and>
      sinkStart (flows ! 14) < sinkStop (flows ! 14) \<and>
      sourceStart (flows ! 14) < sourceStop (flows ! 14))"
proof -
  have h: "0 \<le> (15::int)" "15 \<le> nWifis"
    "\<forall>i k. 0 \<le> RandU01 demo_env i k \<and> RandU01 demo_env i k < 1"
    by (simp_all add: nWifis_def demo_env_def)
  from C4_flows [OF h, of 9 103] obtain flows
    where r: "Run_pairs demo_env 9 103 15 0 = Inr flows" and l: "length flows = 15"
      and p: "\<forall>i<15. sinkNodeIndex (flows ! i) = int i \<and> sourceNodeIndex (flows ! i) = int i + 15 \<and>
        sinkStart (flows ! i) = GetValue (RandU01 demo_env i 0) 0 1 \<and>
        0 \<le> sinkStart (flows ! i) \<and> sinkStart (flows ! i) < 1 \<and>
        sourceStart (flows ! i) = GetValue (RandU01 demo_env i 1) 100 101 \<and>
        100 \<le> sourceStart (flows ! i) \<and> sourceStart (flows ! i) < 101 \<and>
        sinkStop (flows ! i) = 103 \<and> sourceStop (flows ! i) = 103 \<and>
        (101 \<le> (103::real) \<longrightarrow>
           sinkStart (flows ! i) < sinkStop (flows ! i) \<and>
           sourceStart (flows ! i) < sourceStop (flows ! i))"
    by auto
  from spec [OF p, of 14] have "sinkNodeIndex (flows ! 14) = 14 \<and> sourceNodeIndex (flows ! 14) = 29 \<and>
      sinkStart (flows ! 14) = 1 / 2 \<and> sourceStart (flows ! 14) = 201 / 2 \<and>
      sinkStop (flows ! 14) = 103 \<and> sourceStop (flows ! 14) = 103 \<and>
      sinkStart (flows ! 14) < sinkStop (flows ! 14) \<and>
      sourceStart (flows ! 14) < sourceStop (flows ! 14)"
    by (simp add: GetValue_def demo_env_def)
  with h r l show ?thesis
    by auto
qed

text \<open>
  C5, as the code has it. A call of the receive callback adds the sizes of its packets to
  the byte counter and their number to the packet counter, both modulo \<open>2\<^sup>3\<^sup>2\<close>; as long
  as the sums stay below \<open>2\<^sup>3\<^sup>2\<close> the counters do not decrease. A firing of the sampler
  sets both counters to zero, and a second firing with no packet in between reports the
  rate 0 and the count 0.
\<close>

theorem C5_counters:
  "unat (bytesTotal (exper (ReceivePacket env socket w))) =
     (unat (bytesTotal (exper w)) + sum_list (map sizeBytes (pending socket))) mod 4294967296 \<and>
   unat (packetsReceived (exper (ReceivePacket env socket w))) =
     (unat (packetsReceived (exper w)) + length (pending socket)) mod 4294967296 \<and>
   (unat (bytesTotal (exper w)) + sum_list (map sizeBytes (pending socket)) < 4294967296 \<longrightarrow>
      unat (bytesTotal (exper w)) \<le> unat (bytesTotal (exper (ReceivePacket env socket w)))) \<and>
   (unat (packetsReceived (exper w)) + length (pending socket) < 4294967296 \<longrightarrow>
      unat (packetsReceived (exper w)) \<le> unat (packetsReceived (exper (ReceivePacket env socket w)))) \<and>
   bytesTotal (exper (CheckThroughput w)) = 0 \<and>
   packetsReceived (exper (CheckThroughput w)) = 0 \<and>
   ReceiveRate (last_row (m_CSVfileName (exper w)) (CheckThroughput (CheckThroughput w))) = 0 \<and>
   PacketsReceived (last_row (m_CSVfileName (exper w)) (CheckThroughput (CheckThroughput w))) = 0"
  by (simp add: ReceivePacket_exper unat_plus_of_nat32 CheckThroughput_fields last_row_twice)

text \<open>C5 at a concrete state: the first packet of 512 bytes after the program starts.\<close>

theorem C5_counters_witness:
  "unat (bytesTotal (exper (boot (RoutingExperiment_ctor demo_env) Map.empty))) +
     sum_list (map sizeBytes (pending \<lparr>GetId = 3, pending = [(Packet 512, OtherAddress)]\<rparr>)) < 4294967296 \<and>
   unat (packetsReceived (exper (boot (RoutingExperiment_ctor demo_env) Map.empty))) +
     length (pending \<lparr>GetId = 3, pending = [(Packet 512, OtherAddress)]\<rparr>) < 4294967296 \<and>
   unat (bytesTotal (exper (ReceivePacket demo_env \<lparr>GetId = 3, pending = [(Packet 512, OtherAddress)]\<rparr>
      (boot (RoutingExperiment_ctor demo_env) Map.empty)))) = 512 \<and>
   unat (packetsReceived (exper (ReceivePacket demo_env \<lparr>GetId = 3, pending = [(Packet 512, OtherAddress)]\<rparr>
      (boot (RoutingExperiment_ctor demo_env) Map.empty)))) = 1 \<and>
   unat (bytesTotal (exper (boot (RoutingExperiment_ctor demo_env) Map.empty))) \<le>
     unat (bytesTotal (exper (ReceivePacket demo_env \<lparr>GetId = 3, pending = [(Packet 512, OtherAddress)]\<rparr>
      (boot (RoutingExperiment_ctor demo_env) Map.empty)))) \<and>
   ReceiveRate (last_row ''AODV-simulation.csv''
     (CheckThroughput (CheckThroughput (boot (RoutingExperiment_ctor demo_env) Map.empty)))) = 0 \<and>
   PacketsReceived (last_row ''AODV-simulation.csv''
     (CheckThroughput (CheckThroughput (boot (RoutingExperiment_ctor demo_env) Map.empty)))) = 0"
  using C5_counters [where w = "boot (RoutingExperiment_ctor demo_env) Map.empty"
      and env = demo_env and socket = "\<lparr>GetId = 3, pending = [(Packet 512, OtherAddress)]\<rparr>"]
  by (simp add: sizeBytes_def boot_def RoutingExperiment_ctor_def)

text \<open>
  C5 as stated asks that the counters never decrease between two drains. After 8388607
  packets of 512 bytes the byte counter holds 4294966784; one more packet of 512 bytes,
  with no drain in between, wraps it to 0.
\<close>

theorem C5_counterexample:
  "unat (bytesTotal (exper
      (ReceivePacket demo_env \<lparr>GetId = 3, pending = [(Packet 512, OtherAddress)]\<rparr>
        (ReceivePacket demo_env \<lparr>GetId = 3, pending = replicate 8388607 (Packet 512, OtherAddress)\<rparr>
          (boot (RoutingExperiment_ctor demo_env) Map.empty))))) <
   unat (bytesTotal (exper
        (ReceivePacket demo_env \<lparr>GetId = 3, pending = replicate 8388607 (Packet 512, OtherAddress)\<rparr>
          (boot (RoutingExperiment_ctor demo_env) Map.empty))))"
  by (simp add: ReceivePacket_exper sizeBytes_def boot_def RoutingExperiment_ctor_def
      sum_list_replicate)

text \<open>
  C6. A firing of the sampler always schedules the next one at the current time plus one
  second. It reaches no end by itself: when the simulator is not stopped and no stop
  event is pending, the event loop started after a firing never returns, whatever fuel it
  is given. The run of \<open>main\<close> ends because the simulator is stopped at 103 seconds, and
  the sampler is then still armed.
\<close>

theorem C6_rearm:
  "(m_currentTs w + Seconds 1, CheckThroughputEv) \<in> set (m_events (CheckThroughput w)) \<and>
   (\<not> m_stop w \<and> StopEv \<notin> snd ` set (m_events w) \<longrightarrow>
      Simulator_Run_loop env fuel (CheckThroughput w) = None) \<and>
   (fuel_needed env \<le> fuel \<longrightarrow> halted_armed (main env cmd fuel fs))"
proof (intro conjI impI)
  show "(m_currentTs w + Seconds 1, CheckThroughputEv) \<in> set (m_events (CheckThroughput w))"
    by (rule CheckThroughput_arms)
next
  assume "\<not> m_stop w \<and> StopEv \<notin> snd ` set (m_events w)"
  then have "self_armed (CheckThroughput w)"
    by (simp add: CheckThroughput_self_armed)
  then show "Simulator_Run_loop env fuel (CheckThroughput w) = None"
    by (rule self_armed_forever)
next
  assume "fuel_needed env \<le> fuel"
  from main_lines [OF this, of cmd fs] show "halted_armed (main env cmd fuel fs)"
    by (auto simp: halted_armed_def Seconds_103)
qed

text \<open>C6 at the state in which the program starts.\<close>

theorem C6_rearm_witness:
  "\<not> m_stop (boot (RoutingExperiment_ctor demo_env) Map.empty) \<and>
   StopEv \<notin> snd ` set (m_events (boot (RoutingExperiment_ctor demo_env) Map.empty)) \<and>
   fuel_needed demo_env \<le> 105 \<and>
   (1000000000, CheckThroughputEv) \<in>
     set (m_events (CheckThroughput (boot (RoutingExperiment_ctor demo_env) Map.empty))) \<and>
   Simulator_Run_loop demo_env 105 (CheckThroughput (boot (RoutingExperiment_ctor demo_env) Map.empty)) = None \<and>
   halted_armed (main demo_env no_args 105 Map.empty)"
  using C6_rearm [where w = "boot (RoutingExperiment_ctor demo_env) Map.empty" and env = demo_env
      and fuel = 105 and cmd = no_args and fs = Map.empty]
  by (simp add: boot_fields fuel_demo Seconds_1)

text \<open>
  C7. The header line is the fixed text; firings of the sampler, however many, leave the
  header lines of every file as they are; and whatever the file held before, after
  \<open>main\<close> it holds the header line once, as its first line, followed by 103 data rows.
\<close>

theorem C7_header:
  "header_line =
     ''SimulationSecond,ReceiveRate,PacketsReceived,NumberOfSinks,RoutingProtocol,TransmissionPower'' \<and>
   filter is_Header (lines_of name ((CheckThroughput ^^ n) w)) = filter is_Header (lines_of name w) \<and>
   (fuel_needed env \<le> fuel \<longrightarrow>
      result_lines (fst (CommandSetup cmd (RoutingExperiment_ctor env))) (main env cmd fuel fs) =
        Header header_line #
        map Row (data_rows (result_lines (fst (CommandSetup cmd (RoutingExperiment_ctor env)))
          (main env cmd fuel fs))) \<and>
      length (data_rows (result_lines (fst (CommandSetup cmd (RoutingExperiment_ctor env)))
          (main env cmd fuel fs))) = 103)"
proof (intro conjI impI)
  show "header_line =
     ''SimulationSecond,ReceiveRate,PacketsReceived,NumberOfSinks,RoutingProtocol,TransmissionPower''"
    by (simp add: header_line_def)
  show "filter is_Header (lines_of name ((CheckThroughput ^^ n) w)) = filter is_Header (lines_of name w)"
    by (rule headers_firings)
next
  assume "fuel_needed env \<le> fuel"
  from main_result_lines [OF this, of cmd fs] obtain rows
    where l: "result_lines (fst (CommandSetup cmd (RoutingExperiment_ctor env))) (main env cmd fuel fs) =
             Header header_line #
             Row \<lparr>SimulationSecond = 0, ReceiveRate = 0, PacketsReceived = 0,
                  NumberOfSinks = 15, RoutingProtocol = ''AODV'',
                  TransmissionPower = 7.5\<rparr> # map Row rows"
      and r: "rows_ok 15 7.5 103 rows"
    by blast
  show "result_lines (fst (CommandSetup cmd (RoutingExperiment_ctor env))) (main env cmd fuel fs) =
        Header header_line #
        map Row (data_rows (result_lines (fst (CommandSetup cmd (RoutingExperiment_ctor env)))
          (main env cmd fuel fs)))"
    unfolding l data_rows_main_shape by simp
  show "length (data_rows (result_lines (fst (CommandSetup cmd (RoutingExperiment_ctor env)))
          (main env cmd fuel fs))) = 103"
    unfolding l data_rows_main_shape using rows_ok_columns(1) [OF r] by simp
qed

text \<open>
  C7 at a concrete run: three firings after the header was written, and \<open>main\<close> on a
  file that held a data row of an earlier run.
\<close>

theorem C7_header_witness:
  "fuel_needed demo_env \<le> 105 \<and>
   filter is_Header (lines_of ''AODV-simulation.csv''
     ((CheckThroughput ^^ 3) (boot (RoutingExperiment_ctor demo_env)
        [''AODV-simulation.csv'' \<mapsto> [Header header_line]]))) = [Header header_line] \<and>
   result_lines ''AODV-simulation.csv''
     (main demo_env no_args 105 [''AODV-simulation.csv'' \<mapsto> [Row (sample (boot (RoutingExperiment_ctor demo_env) Map.empty))]]) =
     Header header_line #
     map Row (data_rows (result_lines ''AODV-simulation.csv''
       (main demo_env no_args 105 [''AODV-simulation.csv'' \<mapsto> [Row (sample (boot (RoutingExperiment_ctor demo_env) Map.empty))]]))) \<and>
   length (data_rows (result_lines ''AODV-simulation.csv''
       (main demo_env no_args 105 [''AODV-simulation.csv'' \<mapsto> [Row (sample (boot (RoutingExperiment_ctor demo_env) Map.empty))]]))) = 103"
proof -
  have "fuel_needed demo_env \<le> 105"
    by (simp add: fuel_demo)
  with C7_header [where env = demo_env and fuel = 105 and cmd = no_args
      and fs = "[''AODV-simulation.csv'' \<mapsto> [Row (sample (boot (RoutingExperiment_ctor demo_env) Map.empty))]]"
      and name = "''AODV-simulation.csv''" and n = 3
      and w = "boot (RoutingExperiment_ctor demo_env) [''AODV-simulation.csv'' \<mapsto> [Header header_line]]"]
  show ?thesis
    by (simp add: name_demo lines_of_def old_lines_def boot_fields)
qed

text \<open>
  C8. A call of the receive callback logs one line for each packet it takes from the
  socket, in order: the current time, a blank, the id of the receiving node, and then
  \<open>received one packet from\<close> with the IPv4 address of the sender when the sender address
  is an \<open>InetSocketAddress\<close>, and \<open>received one packet!\<close> otherwise.
\<close>

theorem C8_log_lines:
  "console (ReceivePacket env socket w) =
     console w @
     map (\<lambda>(packet, senderAddress).
            show_double env (GetSeconds (m_currentTs w)) @ '' '' @ show_uint env (GetId socket) @
            (if IsMatchingType senderAddress
             then '' received one packet from '' @ show_ipv4 env (GetIpv4 senderAddress)
             else '' received one packet!''))
       (pending socket)"
  by (simp add: ReceivePacket_def ReceivePacket_loop_console PrintReceivedPacket_def case_prod_beta)

text \<open>C8 at a socket that holds one packet of each kind.\<close>

theorem C8_log_lines_witness:
  "console (ReceivePacket demo_env
      \<lparr>GetId = 3, pending = [(Packet 512, InetSocketAddress 167837953 49153), (Packet 512, OtherAddress)]\<rparr>
      (boot (RoutingExperiment_ctor demo_env) Map.empty)) =
     [''t n received one packet from a'', ''t n received one packet!'']"
  using C8_log_lines [where env = demo_env
      and socket = "\<lparr>GetId = 3, pending = [(Packet 512, InetSocketAddress 167837953 49153), (Packet 512, OtherAddress)]\<rparr>"
      and w = "boot (RoutingExperiment_ctor demo_env) Map.empty"]
  by (simp add: demo_env_def boot_def)

text \<open>
  C9. The constructor sets the selector \<open>m_protocol\<close> to 2. Whatever value the selector
  holds when \<open>Run\<close> is called, every row that \<open>Run\<close> appends is labelled \<open>AODV\<close>; so is
  every row of the file that \<open>main\<close> leaves.
\<close>

theorem C9_label_AODV:
  "m_protocol (RoutingExperiment_ctor env) = 2 \<and>
   (0 \<le> nSinks \<and> nSinks \<le> nWifis \<and> fuel_needed env \<le> fuel \<longrightarrow>
      map RoutingProtocol (data_rows (drop (length (old_lines fs name))
        (result_lines name (Run env fuel nSinks txp name (boot (this\<lparr>m_protocol := p\<rparr>) fs))))) =
      replicate 103 ''AODV'') \<and>
   (fuel_needed env \<le> fuel \<longrightarrow>
      map RoutingProtocol (data_rows
        (result_lines (fst (CommandSetup cmd (RoutingExperiment_ctor env))) (main env cmd fuel fs))) =
      replicate 103 ''AODV'')"
proof (intro conjI impI)
  show "m_protocol (RoutingExperiment_ctor env) = 2"
    by (simp add: RoutingExperiment_ctor_def)
next
  assume a: "0 \<le> nSinks \<and> nSinks \<le> nWifis \<and> fuel_needed env \<le> fuel"
  then have a1: "0 \<le> nSinks" and a2: "nSinks \<le> nWifis" and a3: "fuel_needed env \<le> fuel"
    by simp_all
  from Run_result_lines [OF a1 a2 a3, of txp name "this\<lparr>m_protocol := p\<rparr>" fs] obtain rows
    where l: "result_lines name (Run env fuel nSinks txp name (boot (this\<lparr>m_protocol := p\<rparr>) fs)) =
             old_lines fs name @
             Row \<lparr>SimulationSecond = 0,
                  ReceiveRate = (real (unat (bytesTotal this)) * 8) / 1000,
                  PacketsReceived = packetsReceived this,
                  NumberOfSinks = nSinks, RoutingProtocol = ''AODV'',
                  TransmissionPower = txp\<rparr> # map Row rows"
      and r: "rows_ok nSinks txp 103 rows"
    by auto
  have "replicate 103 ''AODV'' = ''AODV'' # replicate 102 ''AODV''"
    by (simp add: numeral_eq_Suc)
  then show "map RoutingProtocol (data_rows (drop (length (old_lines fs name))
        (result_lines name (Run env fuel nSinks txp name (boot (this\<lparr>m_protocol := p\<rparr>) fs))))) =
      replicate 103 ''AODV''"
    unfolding l using rows_ok_columns(3) [OF r] by (simp add: data_rows_Row)
next
  assume "fuel_needed env \<le> fuel"
  from main_result_lines [OF this, of cmd fs] obtain rows
    where l: "result_lines (fst (CommandSetup cmd (RoutingExperiment_ctor env))) (main env cmd fuel fs) =
             Header header_line #
             Row \<lparr>SimulationSecond = 0, ReceiveRate = 0, PacketsReceived = 0,
                  NumberOfSinks = 15, RoutingProtocol = ''AODV'',
                  TransmissionPower = 7.5\<rparr> # map Row rows"
      and r: "rows_ok 15 7.5 103 rows"
    by blast
  have "replicate 103 ''AODV'' = ''AODV'' # replicate 102 ''AODV''"
    by (simp add: numeral_eq_Suc)
  then show "map RoutingProtocol (data_rows
        (result_lines (fst (CommandSetup cmd (RoutingExperiment_ctor env))) (main env cmd fuel fs))) =
      replicate 103 ''AODV''"
    unfolding l data_rows_main_shape using rows_ok_columns(3) [OF r] by simp
qed

text \<open>C9 at a concrete run with the selector 3, and at the run of \<open>main\<close>.\<close>

theorem C9_label_AODV_witness:
  "0 \<le> (15::int) \<and> 15 \<le> nWifis \<and> fuel_needed demo_env \<le> 105 \<and>
   m_protocol (RoutingExperiment_ctor demo_env) = 2 \<and>
   map RoutingProtocol (data_rows (drop (length (old_lines Map.empty ''out.csv''))
     (result_lines ''out.csv'' (Run demo_env 105 15 7.5 ''out.csv''
        (boot ((RoutingExperiment_ctor demo_env)\<lparr>m_protocol := 3\<rparr>) Map.empty))))) =
   replicate 103 ''AODV'' \<and>
   map RoutingProtocol (data_rows
     (result_lines ''AODV-simulation.csv'' (main demo_env no_args 105 Map.empty))) =
   replicate 103 ''AODV''"
proof -
  have "0 \<le> (15::int) \<and> 15 \<le> nWifis \<and> fuel_needed demo_env \<le> 105"
    by (simp add: fuel_demo nWifis_def)
  with C9_label_AODV [where env = demo_env and fuel = 105 and nSinks = 15 and txp = "7.5"
      and name = "''out.csv''" and this = "RoutingExperiment_ctor demo_env"
      and p = 3 and fs = Map.empty and cmd = no_args]
  show ?thesis
    by (simp add: name_demo)
qed

text \<open>
  C10. \<open>Run\<close> calls \<open>CheckThroughput\<close> before the simulator dispatches any event, so
  whatever the events of the simulation are, the first data row that \<open>main\<close> writes has
  the timestamp 0, the rate 0 and the packet count 0.
\<close>

theorem C10_first_row:
  "fuel_needed env \<le> fuel \<Longrightarrow>
     hd (data_rows (result_lines (fst (CommandSetup cmd (RoutingExperiment_ctor env)))
          (main env cmd fuel fs))) =
     \<lparr>SimulationSecond = 0, ReceiveRate = 0, PacketsReceived = 0,
      NumberOfSinks = 15, RoutingProtocol = ''AODV'', TransmissionPower = 7.5\<rparr>"
proof -
  assume "fuel_needed env \<le> fuel"
  from main_result_lines [OF this, of cmd fs] show ?thesis
    by (auto simp: data_rows_Row)
qed

text \<open>C10 at a concrete run.\<close>

theorem C10_first_row_witness:
  "fuel_needed demo_env \<le> 105 \<and>
   hd (data_rows (result_lines ''AODV-simulation.csv'' (main demo_env no_args 105 Map.empty))) =
     \<lparr>SimulationSecond = 0, ReceiveRate = 0, PacketsReceived = 0,
      NumberOfSinks = 15, RoutingProtocol = ''AODV'', TransmissionPower = 7.5\<rparr>"
  using C10_first_row [of demo_env 105 no_args Map.empty]
  by (simp add: fuel_demo name_demo)

end
